theory Spec2Isabelle
  imports Main "HOL-Library.Word" "HOL-Library.Sublist"
begin

section \<open>The Supabase client module (src/supabaseClient.ts)\<close>

text \<open>
  The module reads two configuration strings from the environment, checks their
  shape, creates a client handle (with placeholder credentials when the check
  fails), exports a connectivity probe and binds probe and handle onto
  \<^verbatim>\<open>window\<close> when there is one. The model follows the file top to bottom.
  The library calls \<^verbatim>\<open>createClient\<close> and
  \<^verbatim>\<open>from(..).select(..).limit(..)\<close> are parameters of the model; either of
  them may return or raise, and what is raised is any value.
\<close>

subsection \<open>JavaScript strings and values\<close>

text \<open>
  A JavaScript string is a sequence of UTF-16 code units; \<^verbatim>\<open>length\<close>,
  \<^verbatim>\<open>includes\<close> and \<^verbatim>\<open>startsWith\<close> all work on code units.
  \<open>ascii\<close> embeds an ASCII literal of the source.
\<close>

type_synonym js_string = "16 word list"

definition ascii :: "string \<Rightarrow> js_string" where
  "ascii s = map of_char s"

text \<open>\<^verbatim>\<open>s.startsWith(p)\<close>: the code units of \<open>p\<close> are the first ones of \<open>s\<close>.\<close>

fun startsWith :: "js_string \<Rightarrow> js_string \<Rightarrow> bool" where
  "startsWith s [] = True"
| "startsWith [] (p # ps) = False"
| "startsWith (c # cs) (p # ps) = (c = p \<and> startsWith cs ps)"

text \<open>\<^verbatim>\<open>s.includes(p)\<close>: \<open>p\<close> occurs in \<open>s\<close> at some position.\<close>

fun includes_str :: "js_string \<Rightarrow> js_string \<Rightarrow> bool" where
  "includes_str [] p = (p = [])"
| "includes_str (c # cs) p = (startsWith (c # cs) p \<or> includes_str cs p)"

text \<open>
  The values the module handles: strings and booleans. Truthiness and the
  operators \<^verbatim>\<open>&&\<close>, \<^verbatim>\<open>!\<close> and \<^verbatim>\<open>String(..)\<close> on them.
\<close>

datatype js_value = JString js_string | JBoolean bool

fun truthy :: "js_value \<Rightarrow> bool" where
  "truthy (JString s) = (s \<noteq> [])"
| "truthy (JBoolean b) = b"

definition js_and :: "js_value \<Rightarrow> js_value \<Rightarrow> js_value" where
  "js_and a b = (if truthy a then b else a)"

definition js_not :: "js_value \<Rightarrow> js_value" where
  "js_not a = JBoolean (\<not> truthy a)"

fun String_of :: "js_value \<Rightarrow> js_string" where
  "String_of (JString s) = s"
| "String_of (JBoolean b) = (if b then ascii ''true'' else ascii ''false'')"

subsection \<open>The validity check (lines 36-43)\<close>

text \<open>
  \<^verbatim>\<open>!!(supabaseUrl && supabaseAnonKey && !supabaseUrl.includes('placeholder') &&
  supabaseUrl.length > 0 && supabaseUrl.startsWith('https://') &&
  supabaseAnonKey.length > 20)\<close>, as a function of the two resolved strings.
  \<^verbatim>\<open>&&\<close> associates to the left and yields its first falsy operand.
\<close>

definition configured :: "js_string \<Rightarrow> js_string \<Rightarrow> bool" where
  "configured url key =
     truthy (js_not (js_not
       (js_and (js_and (js_and (js_and (js_and
          (JString url)
          (JString key))
          (js_not (JBoolean (includes_str url (ascii ''placeholder'')))))
          (JBoolean (0 < length url)))
          (JBoolean (startsWith url (ascii ''https://''))))
          (JBoolean (20 < length key)))))"

text \<open>The same check in the words of the specification (section 4.2).\<close>

definition valid_spec :: "js_string \<Rightarrow> js_string \<Rightarrow> bool" where
  "valid_spec url key \<longleftrightarrow>
     url \<noteq> [] \<and> key \<noteq> [] \<and>
     \<not> sublist (ascii ''placeholder'') url \<and>
     length url > 0 \<and>
     prefix (ascii ''https://'') url \<and>
     length key > 20"

subsection \<open>Raised values and the console\<close>

text \<open>
  A value that is raised, caught or returned as an error (\<^verbatim>\<open>catch (e: any)\<close>):
  \<^verbatim>\<open>undefined\<close>, \<^verbatim>\<open>null\<close>, a string or boolean, or an object, of which
  the model keeps the value of its \<^verbatim>\<open>message\<close> property (\<open>Undefined\<close> when it
  has none).
\<close>

datatype js_any = Undefined | Null | Prim js_value | Obj js_any

fun truthy_any :: "js_any \<Rightarrow> bool" where
  "truthy_any Undefined = False"
| "truthy_any Null = False"
| "truthy_any (Prim v) = truthy v"
| "truthy_any (Obj msg) = True"

text \<open>
  The \<^verbatim>\<open>TypeError\<close> that the engine raises: an error object. Its message is
  the engine's wording; the model keeps the kind only.
\<close>

definition type_error :: js_any where
  "type_error = Obj (Prim (JString (ascii ''TypeError'')))"

text \<open>
  \<^verbatim>\<open>e.message\<close>: reading a property of \<^verbatim>\<open>undefined\<close> or \<^verbatim>\<open>null\<close> raises
  a \<^verbatim>\<open>TypeError\<close>; a string or a boolean has no such property.
\<close>

fun message :: "js_any \<Rightarrow> js_any + js_any" where
  "message Undefined = Inl type_error"
| "message Null = Inl type_error"
| "message (Prim v) = Inr Undefined"
| "message (Obj msg) = Inr msg"

text \<open>
  A call of \<^verbatim>\<open>console.log\<close> or \<^verbatim>\<open>console.error\<close> with its arguments:
  strings, an object literal of string fields, or a caught value.
\<close>

datatype console_arg =
    Text js_string
  | Fields "(js_string \<times> js_string) list"
  | Value js_any

datatype console_entry =
    Console_log "console_arg list"
  | Console_error "console_arg list"

subsection \<open>The environment resolver (lines 8-29)\<close>

text \<open>
  One environment source (\<^verbatim>\<open>import.meta.env\<close> or \<^verbatim>\<open>process.env\<close>) as the
  running program finds it: \<open>Undefined_source\<close> when the \<^verbatim>\<open>typeof\<close> test or the
  \<^verbatim>\<open>.env\<close> test is falsy, \<open>Failing_source e\<close> when touching it raises \<open>e\<close>,
  and \<open>Env_source m\<close> when it is the dictionary \<open>m\<close>; a name that \<open>m\<close> does not
  map reads as \<^verbatim>\<open>undefined\<close>.
\<close>

datatype env_source =
    Undefined_source
  | Failing_source js_any
  | Env_source "js_string \<rightharpoonup> js_value"

text \<open>
  The ambient scope of a runtime: the global object, which every runtime has
  (\<^verbatim>\<open>globalThis\<close>). \<open>props\<close> are its properties; \<open>locked\<close> are the names whose
  assignment raises a \<^verbatim>\<open>TypeError\<close> (a read-only property, or a new property of
  an object that is not extensible; the file is a module, so its code is strict).
  \<open>window_defined\<close> is \<^verbatim>\<open>typeof window !== 'undefined'\<close>: in a browser
  \<^verbatim>\<open>window\<close> names the global object, in Node or in a worker the name is not
  defined.
\<close>

datatype 'h global = Probe_function | Client_handle 'h | Host_value

record 'h scope =
  props :: "js_string \<rightharpoonup> 'h global"
  locked :: "js_string set"

record 'h runtime =
  import_meta_env :: env_source
  process_env :: env_source
  ambient :: "'h scope"
  window_defined :: bool

text \<open>
  The body of one \<^verbatim>\<open>try\<close> block,
  \<^verbatim>\<open>if (typeof X !== 'undefined' && X.env && X.env[key]) return String(X.env[key])\<close>:
  \<open>Inl e\<close> when it raises \<open>e\<close>, \<open>Inr (Some s)\<close> when it returns \<open>s\<close>, and
  \<open>Inr None\<close> when control falls out of the block.
\<close>

definition env_method :: "env_source \<Rightarrow> js_string \<Rightarrow> js_any + js_string option" where
  "env_method src key =
     (case src of
        Undefined_source \<Rightarrow> Inr None
      | Failing_source e \<Rightarrow> Inl e
      | Env_source m \<Rightarrow>
          (case m key of
             None \<Rightarrow> Inr None
           | Some v \<Rightarrow> if truthy v then Inr (Some (String_of v)) else Inr None))"

text \<open>\<^verbatim>\<open>try { body } catch (e) { }\<close>: a raised error is dropped and control goes on.\<close>

definition try_catch_empty :: "js_any + 'a option \<Rightarrow> js_any + 'a option" where
  "try_catch_empty body = (case body of Inl e \<Rightarrow> Inr None | Inr r \<Rightarrow> Inr r)"

text \<open>
  The call \<^verbatim>\<open>getEnv(key)\<close>: \<open>Inl e\<close> when it raises \<open>e\<close>, \<open>Inr s\<close> when it
  returns \<open>s\<close>. The body is method 1, then method 2, then \<^verbatim>\<open>return ''\<close>; a
  statement that raises ends the call, one that returns ends it with the value.
\<close>

definition getEnv :: "'h runtime \<Rightarrow> js_string \<Rightarrow> js_any + js_string" where
  "getEnv rt key =
     (case try_catch_empty (env_method (import_meta_env rt) key) of
        Inl e \<Rightarrow> Inl e
      | Inr (Some s) \<Rightarrow> Inr s
      | Inr None \<Rightarrow>
          (case try_catch_empty (env_method (process_env rt) key) of
             Inl e \<Rightarrow> Inl e
           | Inr (Some s) \<Rightarrow> Inr s
           | Inr None \<Rightarrow> Inr []))"

text \<open>
  The resolver in the words of the specification (section 4.1): the non-empty
  value a source defines for a name, where a source that is missing or fails on
  access defines nothing; the build-tool source first, then the process source,
  then the empty string.
\<close>

definition defined_nonempty :: "env_source \<Rightarrow> js_string \<Rightarrow> js_string option" where
  "defined_nonempty src key =
     (case src of
        Env_source m \<Rightarrow>
          (case m key of
             Some v \<Rightarrow> if truthy v then Some (String_of v) else None
           | None \<Rightarrow> None)
      | _ \<Rightarrow> None)"

definition resolve_spec :: "'h runtime \<Rightarrow> js_string \<Rightarrow> js_string" where
  "resolve_spec rt key =
     (case defined_nonempty (import_meta_env rt) key of
        Some s \<Rightarrow> s
      | None \<Rightarrow>
          (case defined_nonempty (process_env rt) key of
             Some s \<Rightarrow> s
           | None \<Rightarrow> []))"

subsection \<open>Module initialisation (lines 32-76, 100-103)\<close>

text \<open>
  \<^verbatim>\<open>getEnv(a) || getEnv(b)\<close>: the second call is made only when the first
  returned a falsy (empty) string.
\<close>

definition or_else :: "js_any + js_string \<Rightarrow> js_any + js_string \<Rightarrow> js_any + js_string" where
  "or_else first second =
     (case first of
        Inl e \<Rightarrow> Inl e
      | Inr s \<Rightarrow> if truthy (JString s) then Inr s else second)"

definition eval_supabaseUrl :: "'h runtime \<Rightarrow> js_any + js_string" where
  "eval_supabaseUrl rt =
     or_else (getEnv rt (ascii ''VITE_SUPABASE_URL'')) (getEnv rt (ascii ''SUPABASE_URL''))"

definition eval_supabaseAnonKey :: "'h runtime \<Rightarrow> js_any + js_string" where
  "eval_supabaseAnonKey rt =
     or_else (getEnv rt (ascii ''VITE_SUPABASE_ANON_KEY''))
             (getEnv rt (ascii ''SUPABASE_ANON_KEY''))"

text \<open>
  The diagnostics of lines 45-69. \<open>found_or_missing\<close> is
  \<^verbatim>\<open>getEnv(name) ? '(U+2713) Found' : '(U+2717) Missing'\<close>; the first code unit
  of the two literals is a check mark and a ballot x.
\<close>

definition found_or_missing :: "js_any + js_string \<Rightarrow> js_any + js_string" where
  "found_or_missing r =
     (case r of
        Inl e \<Rightarrow> Inl e
      | Inr s \<Rightarrow>
          Inr (if truthy (JString s) then 0x2713 # ascii '' Found''
               else 0x2717 # ascii '' Missing''))"

definition checked_for :: "'h runtime \<Rightarrow> js_any + console_arg" where
  "checked_for rt =
     (case found_or_missing (getEnv rt (ascii ''VITE_SUPABASE_URL'')) of
        Inl e \<Rightarrow> Inl e
      | Inr a \<Rightarrow>
     (case found_or_missing (getEnv rt (ascii ''VITE_SUPABASE_ANON_KEY'')) of
        Inl e \<Rightarrow> Inl e
      | Inr b \<Rightarrow>
     (case found_or_missing (getEnv rt (ascii ''SUPABASE_URL'')) of
        Inl e \<Rightarrow> Inl e
      | Inr c \<Rightarrow>
     (case found_or_missing (getEnv rt (ascii ''SUPABASE_ANON_KEY'')) of
        Inl e \<Rightarrow> Inl e
      | Inr d \<Rightarrow>
          Inr (Fields [(ascii ''VITE_SUPABASE_URL'', a),
                       (ascii ''VITE_SUPABASE_ANON_KEY'', b),
                       (ascii ''SUPABASE_URL'', c),
                       (ascii ''SUPABASE_ANON_KEY'', d)])))))"

definition diagnostics :: "'h runtime \<Rightarrow> bool \<Rightarrow> js_string \<Rightarrow> js_any + console_entry list" where
  "diagnostics rt ok url =
     (if \<not> ok then
        (case checked_for rt of
           Inl e \<Rightarrow> Inl e
         | Inr obj \<Rightarrow>
             Inr [Console_log
                    [Text (ascii (''%c [PROTOCOL ALERT] Supabase credentials missing or invalid. '' @
                                  ''Operating in Local Buffer Mode. '')),
                     Text (ascii (''color: #fbbf24; font-weight: bold; background: #1e1b4b; '' @
                                  ''padding: 6px; border-radius: 8px; border: 1px solid #fbbf24;''))],
                  Console_log [Text (ascii ''Checked for:''), obj],
                  Console_log [Text (ascii ''%c How to fix:''),
                               Text (ascii ''color: #10b981; font-weight: bold;'')],
                  Console_log [Text (ascii ''1. Create a .env file in your project root'')],
                  Console_log [Text (ascii ''2. Add these lines:'')],
                  Console_log [Text (ascii ''   VITE_SUPABASE_URL=https://xxxxx.supabase.co'')],
                  Console_log [Text (ascii ''   VITE_SUPABASE_ANON_KEY=eyJhbGc...'')],
                  Console_log [Text (ascii ''3. Restart your dev server (npm run dev)'')]])
      else
        Inr [Console_log
               [Text (ascii ''%c [PROTOCOL STATUS] Supabase connection active '' @
                      0x2713 # ascii '' ''),
                Text (ascii (''color: #10b981; font-weight: bold; background: #1e1b4b; '' @
                             ''padding: 6px; border-radius: 8px; border: 1px solid #10b981;''))],
             Console_log [Text (ascii ''Connected to:''), Text url]])"

text \<open>
  The constants of lines 32-74, in the order the file computes them: the
  resolved pair, the flag, the console lines, and the two arguments for the
  constructor.
\<close>

record config =
  supabaseUrl :: js_string
  supabaseAnonKey :: js_string
  isSupabaseConfigured :: bool
  startup_console :: "console_entry list"
  clientUrl :: js_string
  clientKey :: js_string

definition configuration :: "'h runtime \<Rightarrow> js_any + config" where
  "configuration rt =
     (case eval_supabaseUrl rt of
        Inl e \<Rightarrow> Inl e
      | Inr url \<Rightarrow>
     (case eval_supabaseAnonKey rt of
        Inl e \<Rightarrow> Inl e
      | Inr key \<Rightarrow>
     (case diagnostics rt (configured url key) url of
        Inl e \<Rightarrow> Inl e
      | Inr lines \<Rightarrow>
          (let ok = configured url key
           in Inr \<lparr> supabaseUrl = url,
                    supabaseAnonKey = key,
                    isSupabaseConfigured = ok,
                    startup_console = lines,
                    clientUrl =
                      (if ok then url else ascii ''https://placeholder-project.supabase.co''),
                    clientKey = (if ok then key else ascii ''placeholder-key'') \<rparr>))))"

text \<open>
  \<^verbatim>\<open>(window as any).name = value\<close> in strict code: the assignment raises on a
  locked name and sets the property otherwise.
\<close>

definition assign :: "'h scope \<Rightarrow> js_string \<Rightarrow> 'h global \<Rightarrow> js_any + 'h scope" where
  "assign w name v =
     (if name \<in> locked w then Inl type_error
      else Inr (w\<lparr>props := (props w)(name \<mapsto> v)\<rparr>))"

text \<open>
  Lines 100-103: with \<^verbatim>\<open>window\<close> defined, the probe and then the handle are
  assigned; the result is the ambient scope afterwards.
\<close>

definition bind_window :: "'h runtime \<Rightarrow> 'h \<Rightarrow> js_any + 'h scope" where
  "bind_window rt handle =
     (if window_defined rt then
        (case assign (ambient rt) (ascii ''testSupabaseConnection'') Probe_function of
           Inl e \<Rightarrow> Inl e
         | Inr w \<Rightarrow> assign w (ascii ''supabase'') (Client_handle handle))
      else Inr (ambient rt))"

text \<open>
  The module after its top-level code has run: the constants, the handle of
  line 76 and the ambient scope as the last lines leave it. \<open>createClient\<close> is
  the constructor of the client library, a parameter: for a URL and a key it
  returns a handle (\<open>Inr\<close>) or raises (\<open>Inl\<close>). Nothing at the top level of the
  file catches, so \<open>module_init\<close> is \<open>Inl e\<close>, a module whose loading raises
  \<open>e\<close>, as soon as one step raises.
\<close>

record 'h module = config +
  supabase :: 'h
  ambient_after :: "'h scope"

definition module_init ::
  "(js_string \<Rightarrow> js_string \<Rightarrow> js_any + 'h) \<Rightarrow> 'h runtime \<Rightarrow> js_any + 'h module" where
  "module_init createClient rt =
     (case configuration rt of
        Inl e \<Rightarrow> Inl e
      | Inr c \<Rightarrow>
     (case createClient (clientUrl c) (clientKey c) of
        Inl e \<Rightarrow> Inl e
      | Inr handle \<Rightarrow>
     (case bind_window rt handle of
        Inl e \<Rightarrow> Inl e
      | Inr w \<Rightarrow>
          Inr \<lparr> supabaseUrl = supabaseUrl c,
                supabaseAnonKey = supabaseAnonKey c,
                isSupabaseConfigured = isSupabaseConfigured c,
                startup_console = startup_console c,
                clientUrl = clientUrl c,
                clientKey = clientKey c,
                supabase = handle,
                ambient_after = w \<rparr>)))"

subsection \<open>The connectivity probe (lines 79-97)\<close>

text \<open>
  \<^verbatim>\<open>from(table).select(columns).limit(n)\<close> is a read of at most \<open>n\<close> records.
  Awaiting it either gives an object \<^verbatim>\<open>{data, error}\<close> or raises a value. What
  the backend answers is the parameter \<open>respond\<close>.
\<close>

datatype query = Select (table: js_string) (columns: js_string) (limit: nat)

datatype 'd outcome = Fulfilled 'd js_any | Rejected js_any

record 'h io =
  console :: "console_entry list"
  requests :: "('h \<times> query) list"

text \<open>
  The object the probe returns: \<open>data\<close> and \<open>error\<close> are \<open>None\<close> when the
  object has no such field.
\<close>

record 'd result =
  success :: bool
  data :: "'d option"
  error :: "js_any option"

definition profiles_query :: query where
  "profiles_query = Select (ascii ''profiles'') (ascii ''*'') 1"

text \<open>
  The body of the \<^verbatim>\<open>try\<close> block: the outcome (\<open>Inl e\<close> when it raises \<open>e\<close>,
  \<open>Inr r\<close> when it returns \<open>r\<close>) and the effects so far.
\<close>

definition probe_try ::
  "'h module \<Rightarrow> ('h \<Rightarrow> query \<Rightarrow> 'd outcome) \<Rightarrow> 'h io \<Rightarrow> (js_any + 'd result) \<times> 'h io" where
  "probe_try m respond s =
     (let s1 = s\<lparr>requests := requests s @ [(supabase m, profiles_query)]\<rparr>
      in case respond (supabase m) profiles_query of
           Rejected e \<Rightarrow> (Inl e, s1)
         | Fulfilled d err \<Rightarrow>
             if truthy_any err then
               (let s2 = s1\<lparr>console := console s1 @
                            [Console_error [Text (ascii ''Supabase connection test failed:''),
                                           Value err]]\<rparr>
                in case message err of
                     Inl t \<Rightarrow> (Inl t, s2)
                   | Inr msg \<Rightarrow>
                       (Inr \<lparr>success = False, data = None, error = Some msg\<rparr>, s2))
             else
               (Inr \<lparr>success = True, data = Some d, error = None\<rparr>,
                s1\<lparr>console := console s1 @
                      [Console_log [Text (0x2713 # ascii '' Supabase connection test passed'')]]\<rparr>))"

text \<open>
  \<open>testSupabaseConnection\<close>: the settled outcome of the promise (\<open>Inl e\<close> when
  it rejects with \<open>e\<close>) and the effects. In the \<^verbatim>\<open>catch\<close> block the value is
  logged first and \<^verbatim>\<open>e.message\<close> is read after that, outside any
  \<^verbatim>\<open>try\<close>.
\<close>

definition testSupabaseConnection ::
  "'h module \<Rightarrow> ('h \<Rightarrow> query \<Rightarrow> 'd outcome) \<Rightarrow> 'h io \<Rightarrow> (js_any + 'd result) \<times> 'h io" where
  "testSupabaseConnection m respond s =
     (if \<not> isSupabaseConfigured m then
        (Inr \<lparr>success = False, data = None,
              error = Some (Prim (JString (ascii ''Not configured'')))\<rparr>,
         s\<lparr>console := console s @
              [Console_error [Text (ascii ''Cannot test connection: Supabase not configured'')]]\<rparr>)
      else
        (case probe_try m respond s of
           (Inl e, s1) \<Rightarrow>
             (let s2 = s1\<lparr>console := console s1 @
                          [Console_error [Text (ascii ''Supabase connection test error:''),
                                         Value e]]\<rparr>
              in case message e of
                   Inl t \<Rightarrow> (Inl t, s2)
                 | Inr msg \<Rightarrow>
                     (Inr \<lparr>success = False, data = None, error = Some msg\<rparr>, s2))
         | (Inr r, s1) \<Rightarrow> (Inr r, s1)))"

subsection \<open>Runtimes and constructors to try the module on\<close>

text \<open>
  A runtime with no environment at all; a Vite build in a browser, with the
  prefixed variables; a Node process, where \<^verbatim>\<open>import.meta\<close> fails, the
  unprefixed variables are set and \<^verbatim>\<open>window\<close> is not defined; a runtime
  where the prefixed and the unprefixed variables hold different values; and a
  browser whose URL variable holds the scheme and nothing else.
\<close>

definition empty_scope :: "'h scope" where
  "empty_scope = \<lparr> props = Map.empty, locked = {} \<rparr>"

definition example_unset :: "(js_string \<times> js_string) runtime" where
  "example_unset =
     \<lparr> import_meta_env = Undefined_source, process_env = Undefined_source,
       ambient = empty_scope, window_defined = False \<rparr>"

definition example_vite :: "(js_string \<times> js_string) runtime" where
  "example_vite =
     \<lparr> import_meta_env = Env_source
         [ascii ''VITE_SUPABASE_URL'' \<mapsto> JString (ascii ''https://abc.supabase.co''),
          ascii ''VITE_SUPABASE_ANON_KEY'' \<mapsto>
            JString (ascii ''abcdefghijklmnopqrstuvwxyz0123456789ABCDE'')],
       process_env = Undefined_source,
       ambient = empty_scope, window_defined = True \<rparr>"

definition example_node :: "(js_string \<times> js_string) runtime" where
  "example_node =
     \<lparr> import_meta_env = Failing_source type_error,
       process_env = Env_source
         [ascii ''SUPABASE_URL'' \<mapsto> JString (ascii ''https://abc.supabase.co''),
          ascii ''SUPABASE_ANON_KEY'' \<mapsto>
            JString (ascii ''abcdefghijklmnopqrstuvwxyz0123456789ABCDE'')],
       ambient = empty_scope, window_defined = False \<rparr>"

definition example_both :: "(js_string \<times> js_string) runtime" where
  "example_both =
     \<lparr> import_meta_env = Env_source
         [ascii ''VITE_SUPABASE_URL'' \<mapsto> JString (ascii ''https://abc.supabase.co''),
          ascii ''VITE_SUPABASE_ANON_KEY'' \<mapsto>
            JString (ascii ''abcdefghijklmnopqrstuvwxyz0123456789ABCDE'')],
       process_env = Env_source
         [ascii ''SUPABASE_URL'' \<mapsto> JString (ascii ''https://xyz.supabase.co''),
          ascii ''SUPABASE_ANON_KEY'' \<mapsto>
            JString (ascii ''EDCBA9876543210zyxwvutsrqponmlkjihgfedcba'')],
       ambient = empty_scope, window_defined = False \<rparr>"

definition example_malformed :: "(js_string \<times> js_string) runtime" where
  "example_malformed =
     \<lparr> import_meta_env = Env_source
         [ascii ''VITE_SUPABASE_URL'' \<mapsto> JString (ascii ''https://''),
          ascii ''VITE_SUPABASE_ANON_KEY'' \<mapsto> JString (ascii ''abcdefghijklmnopqrstu'')],
       process_env = Undefined_source,
       ambient = empty_scope, window_defined = True \<rparr>"

text \<open>
  Two constructors whose handle is the pair of their arguments: one accepts
  every pair; the other, as a constructor that parses its URL does, raises an
  error object on a URL that has a scheme and no host.
\<close>

definition accepting_client :: "js_string \<Rightarrow> js_string \<Rightarrow> js_any + js_string \<times> js_string" where
  "accepting_client url key = Inr (url, key)"

definition parsing_client :: "js_string \<Rightarrow> js_string \<Rightarrow> js_any + js_string \<times> js_string" where
  "parsing_client url key =
     (if url = ascii ''https://'' then Inl (Obj (Prim (JString (ascii ''Invalid supabaseUrl''))))
      else Inr (url, key))"

section \<open>Properties\<close>

subsection \<open>String operations against the library's notions\<close>

lemma startsWith_prefix: "startsWith s p \<longleftrightarrow> prefix p s"
  by (induction s p rule: startsWith.induct) auto

lemma includes_str_sublist: "includes_str s p \<longleftrightarrow> sublist p s"
proof (induction s)
  case Nil
  show ?case by simp
next
  case (Cons c cs)
  then show ?case
    by (simp add: sublist_Cons_right startsWith_prefix)
qed

lemma configured_iff:
  "configured url key \<longleftrightarrow>
     url \<noteq> [] \<and> key \<noteq> [] \<and> \<not> includes_str url (ascii ''placeholder'') \<and>
     0 < length url \<and> startsWith url (ascii ''https://'') \<and> 20 < length key"
  by (simp add: configured_def js_and_def js_not_def)

lemma getEnv_eq: "getEnv rt key = Inr (resolve_spec rt key)"
  by (simp add: getEnv_def resolve_spec_def defined_nonempty_def env_method_def
      try_catch_empty_def split: env_source.splits option.splits)

subsection \<open>Module initialisation, step by step\<close>

lemma eval_supabaseUrl_eq:
  "eval_supabaseUrl rt =
     Inr (if resolve_spec rt (ascii ''VITE_SUPABASE_URL'') \<noteq> []
          then resolve_spec rt (ascii ''VITE_SUPABASE_URL'')
          else resolve_spec rt (ascii ''SUPABASE_URL''))"
  by (simp add: eval_supabaseUrl_def or_else_def getEnv_eq)

lemma eval_supabaseAnonKey_eq:
  "eval_supabaseAnonKey rt =
     Inr (if resolve_spec rt (ascii ''VITE_SUPABASE_ANON_KEY'') \<noteq> []
          then resolve_spec rt (ascii ''VITE_SUPABASE_ANON_KEY'')
          else resolve_spec rt (ascii ''SUPABASE_ANON_KEY''))"
  by (simp add: eval_supabaseAnonKey_def or_else_def getEnv_eq)

lemma checked_for_returns: "\<exists>obj. checked_for rt = Inr obj"
  by (simp add: checked_for_def found_or_missing_def getEnv_eq)

lemma diagnostics_returns: "\<exists>lines. diagnostics rt ok url = Inr lines"
proof (cases ok)
  case True
  then show ?thesis by (simp add: diagnostics_def)
next
  case False
  obtain obj where "checked_for rt = Inr obj"
    using checked_for_returns by blast
  with False show ?thesis by (simp add: diagnostics_def)
qed

lemma configuration_returns: "\<exists>c. configuration rt = Inr c"
proof -
  obtain url where url: "eval_supabaseUrl rt = Inr url"
    by (simp add: eval_supabaseUrl_eq)
  obtain key where key: "eval_supabaseAnonKey rt = Inr key"
    by (simp add: eval_supabaseAnonKey_eq)
  obtain lines where "diagnostics rt (configured url key) url = Inr lines"
    using diagnostics_returns by blast
  with url key show ?thesis
    by (simp add: configuration_def Let_def)
qed

lemma configuration_fields:
  assumes "configuration rt = Inr c"
  shows "eval_supabaseUrl rt = Inr (supabaseUrl c)"
    and "eval_supabaseAnonKey rt = Inr (supabaseAnonKey c)"
    and "isSupabaseConfigured c = configured (supabaseUrl c) (supabaseAnonKey c)"
    and "clientUrl c = (if isSupabaseConfigured c then supabaseUrl c
                        else ascii ''https://placeholder-project.supabase.co'')"
    and "clientKey c = (if isSupabaseConfigured c then supabaseAnonKey c
                        else ascii ''placeholder-key'')"
  using assms
  by (auto simp: configuration_def Let_def split: sum.splits)

text \<open>A module that loaded: its constants are the configuration's, its handle
  is what the constructor returned for the two arguments, and the ambient scope
  is what the assignments left.\<close>

lemma module_init_Inr:
  assumes "module_init createClient rt = Inr m"
  obtains c where "configuration rt = Inr c"
    and "supabaseUrl m = supabaseUrl c"
    and "supabaseAnonKey m = supabaseAnonKey c"
    and "isSupabaseConfigured m = isSupabaseConfigured c"
    and "clientUrl m = clientUrl c"
    and "clientKey m = clientKey c"
    and "createClient (clientUrl c) (clientKey c) = Inr (supabase m)"
    and "bind_window rt (supabase m) = Inr (ambient_after m)"
  using assms
  by (auto simp: module_init_def split: sum.splits)

lemma module_init_fields:
  assumes "module_init createClient rt = Inr m"
  shows "eval_supabaseUrl rt = Inr (supabaseUrl m)"
    and "eval_supabaseAnonKey rt = Inr (supabaseAnonKey m)"
    and "isSupabaseConfigured m = configured (supabaseUrl m) (supabaseAnonKey m)"
    and "clientUrl m = (if isSupabaseConfigured m then supabaseUrl m
                        else ascii ''https://placeholder-project.supabase.co'')"
    and "clientKey m = (if isSupabaseConfigured m then supabaseAnonKey m
                        else ascii ''placeholder-key'')"
    and "createClient (clientUrl m) (clientKey m) = Inr (supabase m)"
    and "bind_window rt (supabase m) = Inr (ambient_after m)"
proof -
  obtain c where c: "configuration rt = Inr c"
    and eq: "supabaseUrl m = supabaseUrl c" "supabaseAnonKey m = supabaseAnonKey c"
      "isSupabaseConfigured m = isSupabaseConfigured c"
      "clientUrl m = clientUrl c" "clientKey m = clientKey c"
    and h: "createClient (clientUrl c) (clientKey c) = Inr (supabase m)"
    and w: "bind_window rt (supabase m) = Inr (ambient_after m)"
    using assms by (rule module_init_Inr)
  note f = configuration_fields [OF c]
  show "eval_supabaseUrl rt = Inr (supabaseUrl m)" using f(1) eq by simp
  show "eval_supabaseAnonKey rt = Inr (supabaseAnonKey m)" using f(2) eq by simp
  show "isSupabaseConfigured m = configured (supabaseUrl m) (supabaseAnonKey m)"
    using f(3) eq by simp
  show "clientUrl m = (if isSupabaseConfigured m then supabaseUrl m
                        else ascii ''https://placeholder-project.supabase.co'')"
    using f(4) eq by simp
  show "clientKey m = (if isSupabaseConfigured m then supabaseAnonKey m
                        else ascii ''placeholder-key'')"
    using f(5) eq by simp
  show "createClient (clientUrl m) (clientKey m) = Inr (supabase m)" using h eq by simp
  show "bind_window rt (supabase m) = Inr (ambient_after m)" by (rule w)
qed

text \<open>Loading raises what the constructor raises.\<close>

lemma module_init_createClient_raises:
  assumes "configuration rt = Inr c"
    and "createClient (clientUrl c) (clientKey c) = Inl e"
  shows "module_init createClient rt = Inl e"
  using assms by (simp add: module_init_def)

text \<open>With the accepting constructor and no locked name, the module loads.\<close>

lemma accepting_client_loads:
  assumes "locked (ambient rt) = {}"
  shows "\<exists>m. module_init accepting_client rt = Inr m"
proof -
  obtain c where "configuration rt = Inr c"
    using configuration_returns by blast
  with assms show ?thesis
    by (simp add: module_init_def accepting_client_def bind_window_def assign_def)
qed

lemma placeholder_url_facts:
  "startsWith (ascii ''https://placeholder-project.supabase.co'') (ascii ''https://'')"
  "includes_str (ascii ''https://placeholder-project.supabase.co'') (ascii ''placeholder'')"
  by (simp_all add: ascii_def)

lemma example_unset_loads: "\<exists>m. module_init accepting_client example_unset = Inr m"
  by (rule accepting_client_loads) (simp add: example_unset_def empty_scope_def)

lemma example_vite_loads: "\<exists>m. module_init accepting_client example_vite = Inr m"
  by (rule accepting_client_loads) (simp add: example_vite_def empty_scope_def)

lemma example_node_loads: "\<exists>m. module_init accepting_client example_node = Inr m"
  by (rule accepting_client_loads) (simp add: example_node_def empty_scope_def)

lemma example_unset_module:
  assumes "module_init createClient example_unset = Inr m"
  shows "\<not> isSupabaseConfigured m"
proof -
  have "supabaseUrl m = []"
    using module_init_fields(1) [OF assms]
    by (simp add: eval_supabaseUrl_eq resolve_spec_def defined_nonempty_def example_unset_def)
  then show ?thesis
    using module_init_fields(3) [OF assms] by (simp add: configured_iff)
qed

lemma example_vite_module:
  assumes "module_init createClient example_vite = Inr m"
  shows "supabaseUrl m = ascii ''https://abc.supabase.co''"
    and "supabaseAnonKey m = ascii ''abcdefghijklmnopqrstuvwxyz0123456789ABCDE''"
    and "isSupabaseConfigured m"
proof -
  show url: "supabaseUrl m = ascii ''https://abc.supabase.co''"
    using module_init_fields(1) [OF assms]
    by (simp add: eval_supabaseUrl_eq resolve_spec_def defined_nonempty_def example_vite_def
        ascii_def)
  show key: "supabaseAnonKey m = ascii ''abcdefghijklmnopqrstuvwxyz0123456789ABCDE''"
    using module_init_fields(2) [OF assms]
    by (simp add: eval_supabaseAnonKey_eq resolve_spec_def defined_nonempty_def example_vite_def
        ascii_def)
  show "isSupabaseConfigured m"
    using module_init_fields(3) [OF assms]
    by (simp add: url key configured_iff ascii_def)
qed

lemma example_node_module:
  assumes "module_init createClient example_node = Inr m"
  shows "supabaseUrl m = ascii ''https://abc.supabase.co''"
    and "supabaseAnonKey m = ascii ''abcdefghijklmnopqrstuvwxyz0123456789ABCDE''"
proof -
  show "supabaseUrl m = ascii ''https://abc.supabase.co''"
    using module_init_fields(1) [OF assms]
    by (simp add: eval_supabaseUrl_eq resolve_spec_def defined_nonempty_def example_node_def
        ascii_def)
  show "supabaseAnonKey m = ascii ''abcdefghijklmnopqrstuvwxyz0123456789ABCDE''"
    using module_init_fields(2) [OF assms]
    by (simp add: eval_supabaseAnonKey_eq resolve_spec_def defined_nonempty_def example_node_def
        ascii_def)
qed

lemma example_malformed_configuration:
  assumes "configuration example_malformed = Inr c"
  shows "supabaseUrl c = ascii ''https://''"
    and "supabaseAnonKey c = ascii ''abcdefghijklmnopqrstu''"
    and "isSupabaseConfigured c"
    and "clientUrl c = ascii ''https://''"
    and "clientKey c = ascii ''abcdefghijklmnopqrstu''"
proof -
  show url: "supabaseUrl c = ascii ''https://''"
    using configuration_fields(1) [OF assms]
    by (simp add: eval_supabaseUrl_eq resolve_spec_def defined_nonempty_def
        example_malformed_def ascii_def)
  show key: "supabaseAnonKey c = ascii ''abcdefghijklmnopqrstu''"
    using configuration_fields(2) [OF assms]
    by (simp add: eval_supabaseAnonKey_eq resolve_spec_def defined_nonempty_def
        example_malformed_def ascii_def)
  show ok: "isSupabaseConfigured c"
    using configuration_fields(3) [OF assms]
    by (simp add: url key configured_iff ascii_def)
  show "clientUrl c = ascii ''https://''"
    using configuration_fields(4) [OF assms] ok url by simp
  show "clientKey c = ascii ''abcdefghijklmnopqrstu''"
    using configuration_fields(5) [OF assms] ok key by simp
qed

subsection \<open>The probe, case by case\<close>

lemma truthy_any_message: "truthy_any e \<Longrightarrow> \<exists>msg. message e = Inr msg"
  by (cases e) simp_all

lemma testSupabaseConnection_configured:
  assumes "isSupabaseConfigured m"
  shows "fst (testSupabaseConnection m respond s) =
           (case respond (supabase m) profiles_query of
              Rejected e \<Rightarrow>
                (case message e of
                   Inl t \<Rightarrow> Inl t
                 | Inr msg \<Rightarrow> Inr \<lparr>success = False, data = None, error = Some msg\<rparr>)
            | Fulfilled d err \<Rightarrow>
                if truthy_any err
                then (case message err of
                        Inl t \<Rightarrow> Inl t
                      | Inr msg \<Rightarrow> Inr \<lparr>success = False, data = None, error = Some msg\<rparr>)
                else Inr \<lparr>success = True, data = Some d, error = None\<rparr>)"
    and "requests (snd (testSupabaseConnection m respond s)) =
           requests s @ [(supabase m, profiles_query)]"
  using assms
  by (auto simp: testSupabaseConnection_def probe_try_def Let_def
      split: outcome.splits sum.splits dest!: truthy_any_message)

subsection \<open>The claims\<close>

text \<open>
  Claim C1. The flag \<^verbatim>\<open>isSupabaseConfigured\<close> is true if and only if the
  resolved pair satisfies all six conditions of the specification: the URL is
  non-empty, the key is non-empty, the URL does not contain
  \<^verbatim>\<open>placeholder\<close>, the URL's length is positive, the URL starts with
  \<^verbatim>\<open>https://\<close> and the key is longer than 20. The first conjunct is the
  expression of the source against the specification's predicate, for all
  strings; the second is the flag that lines 32-43 compute, in every runtime;
  the third is the flag a loaded module exports.
\<close>

theorem isSupabaseConfigured_iff_spec:
  "configured url key = valid_spec url key \<and>
   (\<exists>c. configuration rt = Inr c \<and>
        isSupabaseConfigured c = valid_spec (supabaseUrl c) (supabaseAnonKey c)) \<and>
   (module_init createClient rt = Inr m \<longrightarrow>
      isSupabaseConfigured m = valid_spec (supabaseUrl m) (supabaseAnonKey m))"
proof (intro conjI impI)
  show pure: "configured url key = valid_spec url key" for url key
    by (simp add: configured_iff valid_spec_def includes_str_sublist startsWith_prefix)
  obtain c where c: "configuration rt = Inr c"
    using configuration_returns by blast
  have "isSupabaseConfigured c = valid_spec (supabaseUrl c) (supabaseAnonKey c)"
    using configuration_fields(3) [OF c] pure by simp
  with c show "\<exists>c. configuration rt = Inr c \<and>
        isSupabaseConfigured c = valid_spec (supabaseUrl c) (supabaseAnonKey c)"
    by blast
  assume "module_init createClient rt = Inr m"
  then show "isSupabaseConfigured m = valid_spec (supabaseUrl m) (supabaseAnonKey m)"
    using module_init_fields(3) pure by simp
qed

theorem isSupabaseConfigured_iff_spec_witness:
  "\<exists>m. module_init accepting_client example_vite = Inr m \<and>
       isSupabaseConfigured m \<and>
       valid_spec (supabaseUrl m) (supabaseAnonKey m) \<and>
       supabaseUrl m = ascii ''https://abc.supabase.co''"
proof -
  obtain m where m: "module_init accepting_client example_vite = Inr m"
    using example_vite_loads by blast
  have "isSupabaseConfigured m = valid_spec (supabaseUrl m) (supabaseAnonKey m)"
    using isSupabaseConfigured_iff_spec [of "[]" "[]" example_vite accepting_client m] m
    by blast
  with m example_vite_module(1,3) [OF m] show ?thesis by blast
qed

text \<open>
  Claim C2. When the flag is false, the probe returns exactly
  \<^verbatim>\<open>{success: false, error: "Not configured"}\<close> and sends no request to the
  client: the list of requests is as it was.
\<close>

theorem probe_not_configured:
  assumes "\<not> isSupabaseConfigured m"
  shows "fst (testSupabaseConnection m respond s) =
           Inr \<lparr>success = False, data = None,
                error = Some (Prim (JString (ascii ''Not configured'')))\<rparr> \<and>
         requests (snd (testSupabaseConnection m respond s)) = requests s"
  using assms by (simp add: testSupabaseConnection_def)

theorem probe_not_configured_witness:
  "\<exists>m. module_init accepting_client example_unset = Inr m \<and> \<not> isSupabaseConfigured m \<and>
       fst (testSupabaseConnection m (\<lambda>h q. Fulfilled (0::nat) Null)
              \<lparr>console = [], requests = []\<rparr>) =
         Inr \<lparr>success = False, data = None,
              error = Some (Prim (JString (ascii ''Not configured'')))\<rparr> \<and>
       requests (snd (testSupabaseConnection m (\<lambda>h q. Fulfilled (0::nat) Null)
                        \<lparr>console = [], requests = []\<rparr>)) = []"
proof -
  obtain m where m: "module_init accepting_client example_unset = Inr m"
    using example_unset_loads by blast
  have off: "\<not> isSupabaseConfigured m"
    using m by (rule example_unset_module)
  show ?thesis
    using m off
      probe_not_configured [OF off, of "\<lambda>h q. Fulfilled (0::nat) Null"
        "\<lparr>console = [], requests = []\<rparr>"]
    by auto
qed

text \<open>
  Claim C3 says that creating the handle never raises. The call of line 76 is
  not guarded, and the check of lines 36-43 lets through a URL that is only the
  scheme: with \<^verbatim>\<open>VITE_SUPABASE_URL=https://\<close> and a key of 21 characters
  the flag is true, the constructor receives that pair, and what a constructor
  that parses its URL raises there ends the loading of the module.
\<close>

theorem client_factory_raises:
  "(\<exists>c. configuration example_malformed = Inr c \<and> isSupabaseConfigured c \<and>
        clientUrl c = ascii ''https://'' \<and> clientKey c = ascii ''abcdefghijklmnopqrstu'') \<and>
   module_init parsing_client example_malformed =
     Inl (Obj (Prim (JString (ascii ''Invalid supabaseUrl''))))"
proof -
  obtain c where c: "configuration example_malformed = Inr c"
    using configuration_returns by blast
  note f = example_malformed_configuration [OF c]
  have "parsing_client (clientUrl c) (clientKey c) =
          Inl (Obj (Prim (JString (ascii ''Invalid supabaseUrl''))))"
    using f(4) by (simp add: parsing_client_def)
  then have "module_init parsing_client example_malformed =
          Inl (Obj (Prim (JString (ascii ''Invalid supabaseUrl''))))"
    using c by (rule module_init_createClient_raises [rotated])
  with c f(3,4,5) show ?thesis by blast
qed

text \<open>
  Claim C4 says that the probe never lets an exception out. With the flag true
  and a request that raises \<^verbatim>\<open>undefined\<close>, the \<^verbatim>\<open>catch\<close> block reads
  \<^verbatim>\<open>e.message\<close> of the caught value, which raises a \<^verbatim>\<open>TypeError\<close> outside
  any \<^verbatim>\<open>try\<close>: the probe rejects.
\<close>

theorem probe_rejects_raised_undefined:
  "\<exists>m. module_init accepting_client example_vite = Inr m \<and> isSupabaseConfigured m \<and>
       fst (testSupabaseConnection m (\<lambda>h q. (Rejected Undefined :: nat outcome))
              \<lparr>console = [], requests = []\<rparr>) = Inl type_error"
proof -
  obtain m where m: "module_init accepting_client example_vite = Inr m"
    using example_vite_loads by blast
  have on: "isSupabaseConfigured m"
    using m by (rule example_vite_module(3))
  have "fst (testSupabaseConnection m (\<lambda>h q. (Rejected Undefined :: nat outcome))
              \<lparr>console = [], requests = []\<rparr>) = Inl type_error"
    using testSupabaseConnection_configured(1)
      [OF on, of "\<lambda>h q. (Rejected Undefined :: nat outcome)" "\<lparr>console = [], requests = []\<rparr>"]
    by simp
  with m on show ?thesis by blast
qed

text \<open>
  Claim C5. \<^verbatim>\<open>getEnv\<close> never raises. It returns the non-empty value of
  \<^verbatim>\<open>import.meta.env\<close> when there is one, otherwise that of
  \<^verbatim>\<open>process.env\<close>, otherwise the empty string; and a source whose access
  fails counts as a source that is not there.
\<close>

theorem getEnv_resolves:
  "getEnv rt key = Inr (resolve_spec rt key) \<and>
   getEnv (rt\<lparr>import_meta_env := Failing_source e\<rparr>) key =
     getEnv (rt\<lparr>import_meta_env := Undefined_source\<rparr>) key \<and>
   getEnv (rt\<lparr>process_env := Failing_source e\<rparr>) key =
     getEnv (rt\<lparr>process_env := Undefined_source\<rparr>) key"
  by (simp add: getEnv_eq resolve_spec_def defined_nonempty_def
      split: env_source.splits option.splits)

text \<open>
  Claim C6. For the URL and for the key, the prefixed name is read first and
  the unprefixed one second, and the first non-empty value is the resolved one:
  whenever the prefixed variable has a non-empty value, that value is used,
  whatever the unprefixed variable holds. This holds of the pair that lines
  32-33 compute, in every runtime, and of the pair of every loaded module.
\<close>

theorem prefixed_name_first:
  "\<exists>a b k l.
     getEnv rt (ascii ''VITE_SUPABASE_URL'') = Inr a \<and>
     getEnv rt (ascii ''SUPABASE_URL'') = Inr b \<and>
     getEnv rt (ascii ''VITE_SUPABASE_ANON_KEY'') = Inr k \<and>
     getEnv rt (ascii ''SUPABASE_ANON_KEY'') = Inr l \<and>
     (\<exists>c. configuration rt = Inr c \<and>
          supabaseUrl c = (if a \<noteq> [] then a else b) \<and>
          supabaseAnonKey c = (if k \<noteq> [] then k else l)) \<and>
     (\<forall>m. module_init createClient rt = Inr m \<longrightarrow>
          supabaseUrl m = (if a \<noteq> [] then a else b) \<and>
          supabaseAnonKey m = (if k \<noteq> [] then k else l))"
proof -
  obtain c where c: "configuration rt = Inr c"
    using configuration_returns by blast
  have "supabaseUrl c =
          (if resolve_spec rt (ascii ''VITE_SUPABASE_URL'') \<noteq> []
           then resolve_spec rt (ascii ''VITE_SUPABASE_URL'')
           else resolve_spec rt (ascii ''SUPABASE_URL''))"
    using configuration_fields(1) [OF c] by (simp add: eval_supabaseUrl_eq)
  moreover have "supabaseAnonKey c =
          (if resolve_spec rt (ascii ''VITE_SUPABASE_ANON_KEY'') \<noteq> []
           then resolve_spec rt (ascii ''VITE_SUPABASE_ANON_KEY'')
           else resolve_spec rt (ascii ''SUPABASE_ANON_KEY''))"
    using configuration_fields(2) [OF c] by (simp add: eval_supabaseAnonKey_eq)
  moreover have "supabaseUrl m =
          (if resolve_spec rt (ascii ''VITE_SUPABASE_URL'') \<noteq> []
           then resolve_spec rt (ascii ''VITE_SUPABASE_URL'')
           else resolve_spec rt (ascii ''SUPABASE_URL''))"
    if "module_init createClient rt = Inr m" for m
    using module_init_fields(1) [OF that] by (simp add: eval_supabaseUrl_eq)
  moreover have "supabaseAnonKey m =
          (if resolve_spec rt (ascii ''VITE_SUPABASE_ANON_KEY'') \<noteq> []
           then resolve_spec rt (ascii ''VITE_SUPABASE_ANON_KEY'')
           else resolve_spec rt (ascii ''SUPABASE_ANON_KEY''))"
    if "module_init createClient rt = Inr m" for m
    using module_init_fields(2) [OF that] by (simp add: eval_supabaseAnonKey_eq)
  ultimately show ?thesis
    using c by (simp add: getEnv_eq)
qed

theorem prefixed_name_first_witness:
  "\<exists>m. module_init accepting_client example_both = Inr m \<and>
       getEnv example_both (ascii ''VITE_SUPABASE_URL'') = Inr (ascii ''https://abc.supabase.co'') \<and>
       getEnv example_both (ascii ''SUPABASE_URL'') = Inr (ascii ''https://xyz.supabase.co'') \<and>
       supabaseUrl m = ascii ''https://abc.supabase.co'' \<and>
       getEnv example_both (ascii ''VITE_SUPABASE_ANON_KEY'') =
         Inr (ascii ''abcdefghijklmnopqrstuvwxyz0123456789ABCDE'') \<and>
       getEnv example_both (ascii ''SUPABASE_ANON_KEY'') =
         Inr (ascii ''EDCBA9876543210zyxwvutsrqponmlkjihgfedcba'') \<and>
       supabaseAnonKey m = ascii ''abcdefghijklmnopqrstuvwxyz0123456789ABCDE''"
proof -
  obtain m where m: "module_init accepting_client example_both = Inr m"
    by (rule exE [OF accepting_client_loads [of example_both]])
       (simp_all add: example_both_def empty_scope_def)
  have g: "getEnv example_both (ascii ''VITE_SUPABASE_URL'') = Inr (ascii ''https://abc.supabase.co'')"
    "getEnv example_both (ascii ''SUPABASE_URL'') = Inr (ascii ''https://xyz.supabase.co'')"
    "getEnv example_both (ascii ''VITE_SUPABASE_ANON_KEY'') =
       Inr (ascii ''abcdefghijklmnopqrstuvwxyz0123456789ABCDE'')"
    "getEnv example_both (ascii ''SUPABASE_ANON_KEY'') =
       Inr (ascii ''EDCBA9876543210zyxwvutsrqponmlkjihgfedcba'')"
    by (simp_all add: getEnv_eq resolve_spec_def defined_nonempty_def example_both_def ascii_def)
  have "supabaseUrl m = ascii ''https://abc.supabase.co'' \<and>
        supabaseAnonKey m = ascii ''abcdefghijklmnopqrstuvwxyz0123456789ABCDE''"
    using prefixed_name_first [of example_both accepting_client] m g
    by (auto simp: ascii_def)
  with m g show ?thesis by blast
qed

text \<open>
  Claim C7. The flag is a function of the two resolved strings alone: two runs,
  in any two runtimes and with any two constructors, that resolve the same URL
  and the same key have the same flag.
\<close>

theorem validity_pure:
  assumes "module_init createClient1 rt1 = Inr m1"
    and "module_init createClient2 rt2 = Inr m2"
    and "supabaseUrl m1 = supabaseUrl m2"
    and "supabaseAnonKey m1 = supabaseAnonKey m2"
  shows "isSupabaseConfigured m1 = isSupabaseConfigured m2"
  using module_init_fields(3) [OF assms(1)] module_init_fields(3) [OF assms(2)] assms(3,4)
  by simp

theorem validity_pure_witness:
  "\<exists>m1 m2. module_init accepting_client example_vite = Inr m1 \<and>
     module_init accepting_client example_node = Inr m2 \<and>
     supabaseUrl m1 = supabaseUrl m2 \<and> supabaseAnonKey m1 = supabaseAnonKey m2 \<and>
     isSupabaseConfigured m1 = isSupabaseConfigured m2 \<and> isSupabaseConfigured m2"
proof -
  obtain m1 where m1: "module_init accepting_client example_vite = Inr m1"
    using example_vite_loads by blast
  obtain m2 where m2: "module_init accepting_client example_node = Inr m2"
    using example_node_loads by blast
  have url: "supabaseUrl m1 = supabaseUrl m2"
    using example_vite_module(1) [OF m1] example_node_module(1) [OF m2] by simp
  have key: "supabaseAnonKey m1 = supabaseAnonKey m2"
    using example_vite_module(2) [OF m1] example_node_module(2) [OF m2] by simp
  have "isSupabaseConfigured m1 = isSupabaseConfigured m2"
    using validity_pure [OF m1 m2 url key] .
  with m1 m2 url key example_vite_module(3) [OF m1] show ?thesis by blast
qed

text \<open>
  Claim C8 as it is written, that handle and probe are bound whenever a global
  scope exists, fails in a Node process: there is a global scope, the module
  loads, and neither name is bound afterwards, because the code asks for
  \<^verbatim>\<open>window\<close>.
\<close>

theorem ambient_binding_counterexample:
  "case module_init accepting_client example_node of
     Inl e \<Rightarrow> False
   | Inr m \<Rightarrow>
       props (ambient_after m) (ascii ''supabase'') = None \<and>
       props (ambient_after m) (ascii ''testSupabaseConnection'') = None"
proof -
  obtain m where m: "module_init accepting_client example_node = Inr m"
    using example_node_loads by blast
  have "ambient_after m = empty_scope"
    using module_init_fields(7) [OF m] by (simp add: bind_window_def example_node_def)
  with m show ?thesis by (simp add: empty_scope_def)
qed

text \<open>
  Claim C8, amended. When the module has loaded: if \<^verbatim>\<open>window\<close> is defined,
  the probe is bound on it under \<^verbatim>\<open>testSupabaseConnection\<close> and the handle
  under \<^verbatim>\<open>supabase\<close>, and every other name is as it was; if \<^verbatim>\<open>window\<close>
  is not defined, the ambient scope is unchanged.
\<close>

theorem ambient_binding:
  assumes "module_init createClient rt = Inr m"
  shows "ambient_after m =
           (if window_defined rt
            then (ambient rt)\<lparr>props :=
                   (props (ambient rt))
                     (ascii ''testSupabaseConnection'' \<mapsto> Probe_function,
                      ascii ''supabase'' \<mapsto> Client_handle (supabase m))\<rparr>
            else ambient rt)"
  using module_init_fields(7) [OF assms]
  by (auto simp: bind_window_def assign_def split: if_splits sum.splits)

theorem ambient_binding_witness:
  "\<exists>m. module_init accepting_client example_vite = Inr m \<and>
       props (ambient_after m) (ascii ''supabase'') = Some (Client_handle (supabase m)) \<and>
       props (ambient_after m) (ascii ''testSupabaseConnection'') = Some Probe_function \<and>
       supabase m = (ascii ''https://abc.supabase.co'',
                     ascii ''abcdefghijklmnopqrstuvwxyz0123456789ABCDE'')"
proof -
  obtain m where m: "module_init accepting_client example_vite = Inr m"
    using example_vite_loads by blast
  have w: "window_defined example_vite"
    by (simp add: example_vite_def)
  have "props (ambient_after m) (ascii ''supabase'') = Some (Client_handle (supabase m)) \<and>
        props (ambient_after m) (ascii ''testSupabaseConnection'') = Some Probe_function"
    using ambient_binding [OF m] w by (simp add: ascii_def)
  moreover have "supabase m = (ascii ''https://abc.supabase.co'',
                     ascii ''abcdefghijklmnopqrstuvwxyz0123456789ABCDE'')"
    using module_init_fields(4,5,6) [OF m] example_vite_module [OF m]
    by (simp add: accepting_client_def)
  ultimately show ?thesis using m by blast
qed

text \<open>
  Claim C9. The URL that line 76 gives to the constructor always starts with
  \<^verbatim>\<open>https://\<close>, and the flag is false if and only if that URL contains
  \<^verbatim>\<open>placeholder\<close>. The first conjunct is about the arguments computed in
  every runtime (the constructor is called with them: what it raises there is
  what loading raises); the second is about the handle of a loaded module.
\<close>

theorem handle_url_invariant:
  "(\<exists>c. configuration rt = Inr c \<and>
        startsWith (clientUrl c) (ascii ''https://'') \<and>
        (\<not> isSupabaseConfigured c) = includes_str (clientUrl c) (ascii ''placeholder'') \<and>
        (\<forall>e. createClient (clientUrl c) (clientKey c) = Inl e \<longrightarrow>
             module_init createClient rt = Inl e)) \<and>
   (module_init createClient rt = Inr m \<longrightarrow>
      createClient (clientUrl m) (clientKey m) = Inr (supabase m) \<and>
      startsWith (clientUrl m) (ascii ''https://'') \<and>
      (\<not> isSupabaseConfigured m) = includes_str (clientUrl m) (ascii ''placeholder''))"
proof (intro conjI impI)
  obtain c where c: "configuration rt = Inr c"
    using configuration_returns by blast
  note f = configuration_fields [OF c]
  have "startsWith (clientUrl c) (ascii ''https://'')"
    using f(3,4) placeholder_url_facts(1) by (simp add: configured_iff)
  moreover have "(\<not> isSupabaseConfigured c) = includes_str (clientUrl c) (ascii ''placeholder'')"
    using f(3,4) placeholder_url_facts(2) by (simp add: configured_iff)
  moreover have "\<forall>e. createClient (clientUrl c) (clientKey c) = Inl e \<longrightarrow>
             module_init createClient rt = Inl e"
    using module_init_createClient_raises [OF c] by blast
  ultimately show "\<exists>c. configuration rt = Inr c \<and>
        startsWith (clientUrl c) (ascii ''https://'') \<and>
        (\<not> isSupabaseConfigured c) = includes_str (clientUrl c) (ascii ''placeholder'') \<and>
        (\<forall>e. createClient (clientUrl c) (clientKey c) = Inl e \<longrightarrow>
             module_init createClient rt = Inl e)"
    using c by blast
next
  assume m: "module_init createClient rt = Inr m"
  note f = module_init_fields [OF m]
  show "createClient (clientUrl m) (clientKey m) = Inr (supabase m)" by (rule f(6))
  show "startsWith (clientUrl m) (ascii ''https://'')"
    using f(3,4) placeholder_url_facts(1) by (simp add: configured_iff)
  show "(\<not> isSupabaseConfigured m) = includes_str (clientUrl m) (ascii ''placeholder'')"
    using f(3,4) placeholder_url_facts(2) by (simp add: configured_iff)
qed

theorem handle_url_invariant_witness:
  "\<exists>m. module_init accepting_client example_unset = Inr m \<and>
       supabase m = (ascii ''https://placeholder-project.supabase.co'', ascii ''placeholder-key'') \<and>
       startsWith (clientUrl m) (ascii ''https://'') \<and>
       \<not> isSupabaseConfigured m \<and>
       includes_str (clientUrl m) (ascii ''placeholder'')"
proof -
  obtain m where m: "module_init accepting_client example_unset = Inr m"
    using example_unset_loads by blast
  have off: "\<not> isSupabaseConfigured m"
    using m by (rule example_unset_module)
  have "accepting_client (clientUrl m) (clientKey m) = Inr (supabase m) \<and>
      startsWith (clientUrl m) (ascii ''https://'') \<and>
      (\<not> isSupabaseConfigured m) = includes_str (clientUrl m) (ascii ''placeholder'')"
    using handle_url_invariant [of example_unset accepting_client m] m by blast
  moreover have "clientUrl m = ascii ''https://placeholder-project.supabase.co''"
    "clientKey m = ascii ''placeholder-key''"
    using module_init_fields(4,5) [OF m] off by simp_all
  ultimately show ?thesis
    using m off by (auto simp: accepting_client_def)
qed

text \<open>
  Claim C10. Every result the probe returns has this shape: a success carries
  the data of the answer and no error, and occurs only when the flag is true; a
  failure carries no data, and its error is \<^verbatim>\<open>Not configured\<close> when the flag
  is false and the \<^verbatim>\<open>message\<close> of the value that the request returned as
  error or raised when the flag is true. The only calls that return no result
  are those whose request raises \<^verbatim>\<open>undefined\<close> or \<^verbatim>\<open>null\<close>.
\<close>

theorem probe_result_shape:
  "case testSupabaseConnection m respond s of
     (Inl t, s') \<Rightarrow>
       isSupabaseConfigured m \<and> t = type_error \<and>
       (respond (supabase m) (Select (ascii ''profiles'') (ascii ''*'') 1) = Rejected Undefined \<or>
        respond (supabase m) (Select (ascii ''profiles'') (ascii ''*'') 1) = Rejected Null)
   | (Inr r, s') \<Rightarrow>
       if success r
       then isSupabaseConfigured m \<and> error r = None \<and>
            (\<exists>d err. respond (supabase m) (Select (ascii ''profiles'') (ascii ''*'') 1) =
                       Fulfilled d err \<and> \<not> truthy_any err \<and> data r = Some d)
       else data r = None \<and>
            (if isSupabaseConfigured m
             then \<exists>e msg. message e = Inr msg \<and> error r = Some msg \<and>
                    (respond (supabase m) (Select (ascii ''profiles'') (ascii ''*'') 1) =
                       Rejected e \<or>
                     (\<exists>d. respond (supabase m) (Select (ascii ''profiles'') (ascii ''*'') 1) =
                       Fulfilled d e \<and> truthy_any e))
             else error r = Some (Prim (JString (ascii ''Not configured''))))"
proof (cases "isSupabaseConfigured m")
  case False
  then show ?thesis
    by (simp add: testSupabaseConnection_def)
next
  case True
  show ?thesis
  proof (cases "respond (supabase m) (Select (ascii ''profiles'') (ascii ''*'') 1)")
    case (Rejected e)
    with True show ?thesis
      by (cases e)
         (simp_all add: testSupabaseConnection_def probe_try_def profiles_query_def Let_def)
  next
    case (Fulfilled d err)
    with True show ?thesis
      by (cases err)
         (simp_all add: testSupabaseConnection_def probe_try_def profiles_query_def Let_def)
  qed
qed

end
